theory Spec2Isabelle
  imports Complex_Main "HOL-Library.Multiset" "HOL-Library.Sublist" "HOL-Library.Signed_Division"
begin

section \<open>Deferrals\<close>

text \<open>
  Modelled from the spec: the \<open>Deferral\<close> struct and its \<open>Key()\<close> method are declared in
  a types file of package \<open>deferrals\<close> that is not among the sources. The data model of the
  spec gives the four fields and the derived identity
  \<open>Key() = ProjectKey + "/" + Branch\<close>. \<open>UnixTime\<close> is an \<open>int64\<close>; it is only ever
  compared, so it is an \<open>int\<close> here and the 64-bit range is enforced where the value is
  parsed.
\<close>

record Deferral =
  ProjectKey :: string
  Branch :: string
  BuildID :: string
  UnixTime :: int

definition Key :: "Deferral \<Rightarrow> string" where
  "Key d = ProjectKey d @ ''/'' @ Branch d"

subsection \<open>dedup (sqs.go, lines 263-274)\<close>

text \<open>
  The \<open>for ... range a\<close> loop of \<open>dedup\<close>, with its two loop variables \<open>last\<close> and
  \<open>results\<close>; \<open>dedup\<close> starts it at \<open>last = ""\<close> and \<open>results = nil\<close>.
\<close>

fun dedup_loop :: "string \<Rightarrow> Deferral list \<Rightarrow> Deferral list \<Rightarrow> Deferral list" where
  "dedup_loop lastKey results [] = results"
| "dedup_loop lastKey results (v # a) =
     (if Key v \<noteq> lastKey then dedup_loop (Key v) (results @ [v]) a
      else dedup_loop lastKey results a)"

definition dedup :: "Deferral list \<Rightarrow> Deferral list" where
  "dedup a = dedup_loop '''' [] a"

subsection \<open>sort.Sort(ByTime(msgs)) (sqs.go, lines 250-261)\<close>

text \<open>
  \<open>ByTime.Less\<close> compares the \<open>UnixTime\<close> of two elements. \<open>sort.Sort\<close> is the Go
  standard library's sort; it is not stable, and all it promises is that the slice is
  rearranged so that no later element is \<open>Less\<close> than an earlier one. The services
  therefore take the sort as a parameter \<open>srt\<close>, and \<open>sorts_ByTime srt\<close> is that promise.
\<close>

definition ByTime_Less :: "Deferral \<Rightarrow> Deferral \<Rightarrow> bool" where
  "ByTime_Less a b = (UnixTime a < UnixTime b)"

definition sorts_ByTime :: "(Deferral list \<Rightarrow> Deferral list) \<Rightarrow> bool" where
  "sorts_ByTime srt =
     (\<forall>xs. mset (srt xs) = mset xs \<and> sorted_wrt (\<lambda>a b. \<not> ByTime_Less b a) (srt xs))"

subsection \<open>strconv.ParseInt(s, 10, 64) and fmt.Sprintf("%d", n)\<close>

text \<open>
  The two standard library functions the services call on the \<open>unixtime\<close> attribute.
  \<open>ParseInt\<close> takes an optional sign and then at least one decimal digit; a syntax
  error and a range error both come back as a non-nil \<open>err\<close>, here \<open>None\<close>. The digits
  are accumulated in a \<open>nat\<close>, so the overflow of \<open>ParseUint\<close> needs no branch of its
  own: a value that does not fit 64 bits is beyond the cutoff \<open>2^63\<close> too.
\<close>

definition digit_val :: "char \<Rightarrow> nat option" where
  "digit_val c =
     (let n = (of_char c :: nat) in if 48 \<le> n \<and> n \<le> 57 then Some (n - 48) else None)"

fun ParseUint_loop :: "nat \<Rightarrow> string \<Rightarrow> nat option" where
  "ParseUint_loop n [] = Some n"
| "ParseUint_loop n (c # cs) =
     (case digit_val c of None \<Rightarrow> None | Some d \<Rightarrow> ParseUint_loop (n * 10 + d) cs)"

definition ParseUint :: "string \<Rightarrow> nat option" where
  "ParseUint s = (if s = [] then None else ParseUint_loop 0 s)"

definition ParseInt :: "string \<Rightarrow> int option" where
  "ParseInt s =
     (case s of
        [] \<Rightarrow> None
      | c # cs \<Rightarrow>
          (let neg = (c = CHR ''-'');
               s' = (if c = CHR ''+'' \<or> c = CHR ''-'' then cs else s)
           in case ParseUint s' of
                None \<Rightarrow> None
              | Some un \<Rightarrow>
                  if \<not> neg \<and> un \<ge> 2 ^ 63 then None
                  else if neg \<and> un > 2 ^ 63 then None
                  else Some (if neg then - int un else int un)))"

definition digit_char :: "nat \<Rightarrow> char" where
  "digit_char d = char_of (48 + d)"

fun nat_digits :: "nat \<Rightarrow> string" where
  "nat_digits n = (if n < 10 then [digit_char n] else nat_digits (n div 10) @ [digit_char (n mod 10)])"

declare nat_digits.simps [simp del]

definition Sprintf_d :: "int \<Rightarrow> string" where
  "Sprintf_d n = (if n < 0 then CHR ''-'' # nat_digits (nat (- n)) else nat_digits (nat n))"

subsection \<open>The SQS interface (sqs.go, lines 18-25)\<close>

text \<open>
  The request and response structs of the AWS SDK, with the fields the services set or
  read. A Go pointer field that may be nil is an \<open>option\<close>; a Go map with pointer values
  is a partial map, a missing key and a nil value being the same nil pointer.
\<close>

record MessageAttributeValue =
  DataType :: "string option"
  StringValue :: "string option"

record Message =
  MessageAttributes :: "string \<rightharpoonup> MessageAttributeValue"
  ReceiptHandle :: "string option"

record SendMessageInput =
  Send_QueueUrl :: string
  Send_MessageDeduplicationId :: string
  Send_DelaySeconds :: int
  Send_MessageAttributes :: "string \<rightharpoonup> MessageAttributeValue"

record ReceiveMessageInput =
  Recv_QueueUrl :: string
  Recv_MaxNumberOfMessages :: int
  Recv_MessageAttributeNames :: "string list"
  Recv_VisibilityTimeout :: "int option"

record DeleteMessageInput =
  Del_QueueUrl :: string
  Del_ReceiptHandle :: string

record GetQueueAttributesInput =
  Get_QueueUrl :: string
  Get_AttributeNames :: "string list"

datatype error = TransportError string | NumError | Wrap error string

datatype panic = NilDereference

text \<open>
  An implementation of the interface acts on a remote queue. Its state \<open>'q\<close> is passed
  to each call and returned changed; \<open>CreateQueue\<close> is used by the constructor only and
  is left out.
\<close>

record 'q SQS =
  DeleteMessage :: "DeleteMessageInput \<Rightarrow> 'q \<Rightarrow> error option \<times> 'q"
  GetQueueAttributes :: "GetQueueAttributesInput \<Rightarrow> 'q \<Rightarrow> (error + (string \<rightharpoonup> string)) \<times> 'q"
  ReceiveMessage :: "ReceiveMessageInput \<Rightarrow> 'q \<Rightarrow> (error + Message list) \<times> 'q"
  SendMessage :: "SendMessageInput \<Rightarrow> 'q \<Rightarrow> error option \<times> 'q"

text \<open>
  What a service call does to its surroundings, in order: each request made through the
  interface, with the answer it got, and each Deferral sent on the relay channel.
\<close>

datatype event =
  SendMessageCall SendMessageInput "error option"
| ReceiveMessageCall ReceiveMessageInput "error + Message list"
| DeleteMessageCall DeleteMessageInput "error option"
| GetQueueAttributesCall GetQueueAttributesInput "error + (string \<rightharpoonup> string)"
| RelaySend Deferral

record 'q world =
  remote :: 'q
  trace :: "event list"

text \<open>
  \<open>SQSDeferralService\<close>: the \<open>sqs\<close> field is the parameter \<open>sqs\<close> of each method below,
  the sends on \<open>relay\<close> are \<open>RelaySend\<close> events, and the mutex, held for the whole of
  each method, has no effect on one call run alone.
\<close>

record SQSDeferralService =
  queueURL :: string

subsection \<open>Defer (sqs.go, lines 56-86)\<close>

text \<open>\<open>now\<close> is the value of \<open>time.Now().Unix()\<close>.\<close>

definition Defer_params :: "SQSDeferralService \<Rightarrow> int \<Rightarrow> string \<Rightarrow> string \<Rightarrow> string \<Rightarrow> SendMessageInput" where
  "Defer_params s now projectKey branch buildID =
     \<lparr>Send_QueueUrl = queueURL s,
      Send_MessageDeduplicationId = buildID,
      Send_DelaySeconds = 1,
      Send_MessageAttributes =
        [''projectkey'' \<mapsto> \<lparr>DataType = Some ''String'', StringValue = Some projectKey\<rparr>,
         ''branch'' \<mapsto> \<lparr>DataType = Some ''String'', StringValue = Some branch\<rparr>,
         ''buildid'' \<mapsto> \<lparr>DataType = Some ''String'', StringValue = Some buildID\<rparr>,
         ''unixtime'' \<mapsto> \<lparr>DataType = Some ''Number'', StringValue = Some (Sprintf_d now)\<rparr>]\<rparr>"

definition Defer ::
  "'q SQS \<Rightarrow> SQSDeferralService \<Rightarrow> int \<Rightarrow> string \<Rightarrow> string \<Rightarrow> string \<Rightarrow> 'q world
     \<Rightarrow> error option \<times> 'q world" where
  "Defer sqs s now projectKey branch buildID w =
     (let params = Defer_params s now projectKey branch buildID;
          (err, q') = SendMessage sqs params (remote w)
      in (err, \<lparr>remote = q', trace = trace w @ [SendMessageCall params err]\<rparr>))"

subsection \<open>deleteMessage (sqs.go, lines 217-226)\<close>

text \<open>\<open>errors.Wrap\<close> of a nil error is nil.\<close>

definition deleteMessage ::
  "'q SQS \<Rightarrow> SQSDeferralService \<Rightarrow> string \<Rightarrow> 'q world \<Rightarrow> error option \<times> 'q world" where
  "deleteMessage sqs s handle w =
     (let params = \<lparr>Del_QueueUrl = queueURL s, Del_ReceiptHandle = handle\<rparr>;
          (err, q') = DeleteMessage sqs params (remote w)
      in (map_option (\<lambda>e. Wrap e ''Failed to delete message'') err,
          \<lparr>remote = q', trace = trace w @ [DeleteMessageCall params err]\<rparr>))"

subsection \<open>The loop over resp.Messages (sqs.go, lines 110-130 and 175-195)\<close>

text \<open>
  \<open>Resubmit\<close> and \<open>DeferredBuilds\<close> run the same loop over the messages of a response.
  \<open>message.MessageAttributes[k].StringValue\<close> dereferences the map's value, and \<open>*t\<close> the
  string pointer: each panics on nil, as \<open>*message.ReceiptHandle\<close> does. A \<open>unixtime\<close>
  that does not parse is logged and the loop goes on to the next message; an error of
  \<open>deleteMessage\<close> is logged and ignored. Logging is not modelled.
\<close>

definition attribute :: "Message \<Rightarrow> string \<Rightarrow> panic + string" where
  "attribute message k =
     (case MessageAttributes message k of
        None \<Rightarrow> Inl NilDereference
      | Some a \<Rightarrow> (case StringValue a of None \<Rightarrow> Inl NilDereference | Some v \<Rightarrow> Inr v))"

fun messages_loop ::
  "'q SQS \<Rightarrow> SQSDeferralService \<Rightarrow> Message list \<Rightarrow> Deferral list \<Rightarrow> 'q world
     \<Rightarrow> (panic + Deferral list) \<times> 'q world" where
  "messages_loop sqs s [] msgs w = (Inr msgs, w)"
| "messages_loop sqs s (message # rest) msgs w =
     (case attribute message ''unixtime'' of
        Inl p \<Rightarrow> (Inl p, w)
      | Inr t \<Rightarrow>
          (case ParseInt t of
             None \<Rightarrow> messages_loop sqs s rest msgs w
           | Some unixtime \<Rightarrow>
               (case attribute message ''projectkey'' of
                  Inl p \<Rightarrow> (Inl p, w)
                | Inr pk \<Rightarrow>
                    (case attribute message ''branch'' of
                       Inl p \<Rightarrow> (Inl p, w)
                     | Inr br \<Rightarrow>
                         (case attribute message ''buildid'' of
                            Inl p \<Rightarrow> (Inl p, w)
                          | Inr bid \<Rightarrow>
                              (let d = \<lparr>ProjectKey = pk, Branch = br, BuildID = bid,
                                        UnixTime = unixtime\<rparr>
                               in case ReceiptHandle message of
                                    None \<Rightarrow> (Inl NilDereference, w)
                                  | Some handle \<Rightarrow>
                                      messages_loop sqs s rest (msgs @ [d])
                                        (snd (deleteMessage sqs s handle w))))))))"

subsection \<open>Resubmit (sqs.go, lines 90-137)\<close>

text \<open>
  A send on the relay channel is the event \<open>RelaySend\<close>; that it blocks until the
  receiver takes the value is not modelled.
\<close>

definition Resubmit_params :: "SQSDeferralService \<Rightarrow> ReceiveMessageInput" where
  "Resubmit_params s =
     \<lparr>Recv_QueueUrl = queueURL s, Recv_MaxNumberOfMessages = 10,
      Recv_MessageAttributeNames = [''All''], Recv_VisibilityTimeout = None\<rparr>"

definition Resubmit ::
  "(Deferral list \<Rightarrow> Deferral list) \<Rightarrow> 'q SQS \<Rightarrow> SQSDeferralService \<Rightarrow> 'q world
     \<Rightarrow> (panic + unit) \<times> 'q world" where
  "Resubmit srt sqs s w =
     (let params = Resubmit_params s;
          (resp, q') = ReceiveMessage sqs params (remote w);
          w1 = \<lparr>remote = q', trace = trace w @ [ReceiveMessageCall params resp]\<rparr>
      in case resp of
           Inl err \<Rightarrow> (Inr (), w1)
         | Inr messages \<Rightarrow>
             (case messages_loop sqs s messages [] w1 of
                (Inl p, w2) \<Rightarrow> (Inl p, w2)
              | (Inr msgs, w2) \<Rightarrow>
                  (Inr (), w2\<lparr>trace := trace w2 @ map RelaySend (dedup (srt msgs))\<rparr>)))"

subsection \<open>getVisibleMessagesCount (sqs.go, lines 229-248)\<close>

text \<open>\<open>strconv.Atoi\<close> is \<open>ParseInt\<close> at the size of \<open>int\<close>, 64 bits.\<close>

definition getVisibleMessagesCount ::
  "'q SQS \<Rightarrow> SQSDeferralService \<Rightarrow> 'q world \<Rightarrow> (panic + error + int) \<times> 'q world" where
  "getVisibleMessagesCount sqs s w =
     (let params = \<lparr>Get_QueueUrl = queueURL s,
                    Get_AttributeNames = [''ApproximateNumberOfMessages'']\<rparr>;
          (resp, q') = GetQueueAttributes sqs params (remote w);
          w1 = \<lparr>remote = q', trace = trace w @ [GetQueueAttributesCall params resp]\<rparr>
      in case resp of
           Inl err \<Rightarrow> (Inr (Inl (Wrap err ''Error reading available messages count'')), w1)
         | Inr attrs \<Rightarrow>
             (case attrs ''ApproximateNumberOfMessages'' of
                None \<Rightarrow> (Inl NilDereference, w1)
              | Some a \<Rightarrow>
                  (case ParseInt a of
                     None \<Rightarrow> (Inr (Inl NumError), w1)
                   | Some i \<Rightarrow> (Inr (Inr i), w1))))"

subsection \<open>DeferredBuilds (sqs.go, lines 140-202)\<close>

definition DeferredBuilds_params :: "SQSDeferralService \<Rightarrow> int \<Rightarrow> ReceiveMessageInput" where
  "DeferredBuilds_params s nMaxMessages =
     \<lparr>Recv_QueueUrl = queueURL s, Recv_MaxNumberOfMessages = nMaxMessages,
      Recv_MessageAttributeNames = [''All''], Recv_VisibilityTimeout = Some 0\<rparr>"

text \<open>
  The body of the \<open>for i := 0; i < reads; i++\<close> loop: a failed receive is logged and the
  loop continues, leaving \<open>msgs\<close> as it is; otherwise the messages are read and \<open>msgs\<close>
  is sorted and deduplicated.
\<close>

definition read_batch ::
  "(Deferral list \<Rightarrow> Deferral list) \<Rightarrow> 'q SQS \<Rightarrow> SQSDeferralService \<Rightarrow> int \<Rightarrow> Deferral list
     \<Rightarrow> 'q world \<Rightarrow> (panic + Deferral list) \<times> 'q world" where
  "read_batch srt sqs s nMaxMessages msgs w =
     (let params = DeferredBuilds_params s nMaxMessages;
          (resp, q') = ReceiveMessage sqs params (remote w);
          w1 = \<lparr>remote = q', trace = trace w @ [ReceiveMessageCall params resp]\<rparr>
      in case resp of
           Inl err \<Rightarrow> (Inr msgs, w1)
         | Inr messages \<Rightarrow>
             (case messages_loop sqs s messages msgs w1 of
                (Inl p, w2) \<Rightarrow> (Inl p, w2)
              | (Inr msgs', w2) \<Rightarrow> (Inr (dedup (srt msgs')), w2)))"

function reads_loop ::
  "(Deferral list \<Rightarrow> Deferral list) \<Rightarrow> 'q SQS \<Rightarrow> SQSDeferralService \<Rightarrow> int \<Rightarrow> int \<Rightarrow> int
     \<Rightarrow> Deferral list \<Rightarrow> 'q world \<Rightarrow> (panic + Deferral list) \<times> 'q world" where
  "reads_loop srt sqs s nMaxMessages i reads msgs w =
     (if i < reads then
        (case read_batch srt sqs s nMaxMessages msgs w of
           (Inl p, w') \<Rightarrow> (Inl p, w')
         | (Inr msgs', w') \<Rightarrow> reads_loop srt sqs s nMaxMessages (i + 1) reads msgs' w')
      else (Inr msgs, w))"
  by pat_completeness auto
termination
  by (relation "measure (\<lambda>(srt, sqs, s, nMaxMessages, i, reads, msgs, w). nat (reads - i))") auto

declare reads_loop.simps [simp del]

text \<open>Go's \<open>/\<close> and \<open>%\<close> on \<open>int\<close> truncate towards zero: \<open>sdiv\<close> and \<open>smod\<close>.\<close>

definition DeferredBuilds ::
  "(Deferral list \<Rightarrow> Deferral list) \<Rightarrow> 'q SQS \<Rightarrow> SQSDeferralService \<Rightarrow> 'q world
     \<Rightarrow> (panic + error + Deferral list) \<times> 'q world" where
  "DeferredBuilds srt sqs s w =
     (case getVisibleMessagesCount sqs s w of
        (Inl p, w1) \<Rightarrow> (Inl p, w1)
      | (Inr (Inl err), w1) \<Rightarrow>
          (Inr (Inl (Wrap err ''error retrieving number of visible messages'')), w1)
      | (Inr (Inr n), w1) \<Rightarrow>
          (let nMaxMessages = 10;
               reads = n sdiv nMaxMessages;
               reads = (if n smod 10 > 0 then reads + 1 else reads)
           in case reads_loop srt sqs s nMaxMessages 0 reads [] w1 of
                (Inl p, w2) \<Rightarrow> (Inl p, w2)
              | (Inr msgs, w2) \<Rightarrow> (Inr (Inr msgs), w2)))"

subsection \<open>Reading messages and traces\<close>

text \<open>
  The Deferral the loop builds from a message, when the message has the four attributes
  and its \<open>unixtime\<close> parses; whether the \<open>unixtime\<close> of a message parses; and whether
  the loop gets through a message without meeting a nil pointer.
\<close>

definition toDeferral :: "Message \<Rightarrow> Deferral option" where
  "toDeferral message =
     (case (attribute message ''unixtime'', attribute message ''projectkey'',
            attribute message ''branch'', attribute message ''buildid'') of
        (Inr t, Inr pk, Inr br, Inr bid) \<Rightarrow>
          map_option (\<lambda>unixtime. \<lparr>ProjectKey = pk, Branch = br, BuildID = bid,
                                   UnixTime = unixtime\<rparr>) (ParseInt t)
      | _ \<Rightarrow> None)"

definition unixtime_parses :: "Message \<Rightarrow> bool" where
  "unixtime_parses message =
     (case attribute message ''unixtime'' of Inl p \<Rightarrow> False | Inr t \<Rightarrow> ParseInt t \<noteq> None)"

definition intact :: "Message \<Rightarrow> bool" where
  "intact message =
     (case attribute message ''unixtime'' of
        Inl p \<Rightarrow> False
      | Inr t \<Rightarrow>
          ParseInt t = None \<or>
          (isl (attribute message ''projectkey'') = False \<and>
           isl (attribute message ''branch'') = False \<and>
           isl (attribute message ''buildid'') = False \<and>
           ReceiptHandle message \<noteq> None))"

definition parsed :: "Message list \<Rightarrow> Deferral list" where
  "parsed messages = List.map_filter toDeferral messages"

definition parsed_handles :: "Message list \<Rightarrow> string list" where
  "parsed_handles messages =
     List.map_filter (\<lambda>m. if unixtime_parses m then ReceiptHandle m else None) messages"

text \<open>The events of one kind in a trace, in order.\<close>

fun relayed :: "event list \<Rightarrow> Deferral list" where
  "relayed [] = []"
| "relayed (RelaySend d # es) = d # relayed es"
| "relayed (e # es) = relayed es"

fun deletes :: "event list \<Rightarrow> DeleteMessageInput list" where
  "deletes [] = []"
| "deletes (DeleteMessageCall p r # es) = p # deletes es"
| "deletes (e # es) = deletes es"

fun receives :: "event list \<Rightarrow> ReceiveMessageInput list" where
  "receives [] = []"
| "receives (ReceiveMessageCall p r # es) = p # receives es"
| "receives (e # es) = receives es"

fun sends :: "event list \<Rightarrow> SendMessageInput list" where
  "sends [] = []"
| "sends (SendMessageCall p r # es) = p # sends es"
| "sends (e # es) = sends es"

text \<open>The batches of messages that the receive requests of a trace were answered with.\<close>

fun batches :: "event list \<Rightarrow> Message list list" where
  "batches [] = []"
| "batches (ReceiveMessageCall p (Inr messages) # es) = messages # batches es"
| "batches (e # es) = batches es"

fun is_delete :: "event \<Rightarrow> bool" where
  "is_delete (DeleteMessageCall p r) = True"
| "is_delete e = False"

text \<open>The events that a call added to the trace.\<close>

definition since :: "'q world \<Rightarrow> 'q world \<Rightarrow> event list" where
  "since w w' = drop (length (trace w)) (trace w')"

subsection \<open>Implementations of the interface to run the services on\<close>

text \<open>
  An in-memory queue: a send appends the message, with the deduplication id as its
  receipt handle; a receive answers with the first messages of the queue, up to the
  number asked for, and leaves them there; a delete removes the messages with the
  handle; the count is the length of the queue.
\<close>

definition memq :: "Message list SQS" where
  "memq =
     \<lparr>DeleteMessage =
        (\<lambda>p q. (None, filter (\<lambda>m. ReceiptHandle m \<noteq> Some (Del_ReceiptHandle p)) q)),
      GetQueueAttributes =
        (\<lambda>p q. (Inr [''ApproximateNumberOfMessages'' \<mapsto> Sprintf_d (int (length q))], q)),
      ReceiveMessage = (\<lambda>p q. (Inr (take (nat (Recv_MaxNumberOfMessages p)) q), q)),
      SendMessage =
        (\<lambda>p q. (None, q @ [\<lparr>MessageAttributes = Send_MessageAttributes p,
                              ReceiptHandle = Some (Send_MessageDeduplicationId p)\<rparr>]))\<rparr>"

text \<open>
  A queue that is out of reach for its first \<open>n\<close> requests, \<open>n\<close> being the state, and
  empty afterwards.
\<close>

definition unreachable :: error where
  "unreachable = TransportError ''RequestError: send request failed''"

definition flaky :: "nat SQS" where
  "flaky =
     \<lparr>DeleteMessage = (\<lambda>p n. (if n = 0 then None else Some unreachable, n - 1)),
      GetQueueAttributes =
        (\<lambda>p n. (if n = 0 then Inr [''ApproximateNumberOfMessages'' \<mapsto> ''0'']
                 else Inl unreachable, n - 1)),
      ReceiveMessage = (\<lambda>p n. (if n = 0 then Inr [] else Inl unreachable, n - 1)),
      SendMessage = (\<lambda>p n. (if n = 0 then None else Some unreachable, n - 1))\<rparr>"

text \<open>The message that a Deferral travels as, with a receipt handle.\<close>

definition message_of :: "string \<Rightarrow> string \<Rightarrow> string \<Rightarrow> string \<Rightarrow> string \<Rightarrow> Message" where
  "message_of projectKey branch buildID unixtime handle =
     \<lparr>MessageAttributes =
        [''projectkey'' \<mapsto> \<lparr>DataType = Some ''String'', StringValue = Some projectKey\<rparr>,
         ''branch'' \<mapsto> \<lparr>DataType = Some ''String'', StringValue = Some branch\<rparr>,
         ''buildid'' \<mapsto> \<lparr>DataType = Some ''String'', StringValue = Some buildID\<rparr>,
         ''unixtime'' \<mapsto> \<lparr>DataType = Some ''Number'', StringValue = Some unixtime\<rparr>],
      ReceiptHandle = Some handle\<rparr>"

section \<open>Properties of dedup\<close>

lemma Key_not_empty: "Key d \<noteq> ''''"
  by (simp add: Key_def)

lemma dedup_loop_results: "dedup_loop l rs xs = rs @ dedup_loop l [] xs"
proof (induction xs arbitrary: l rs)
  case Nil
  show ?case by simp
next
  case (Cons v a)
  show ?case
  proof (cases "Key v = l")
    case True
    then show ?thesis using Cons.IH [of l rs] by simp
  next
    case False
    have "dedup_loop (Key v) (rs @ [v]) a = (rs @ [v]) @ dedup_loop (Key v) [] a"
      by (rule Cons.IH)
    moreover have "dedup_loop (Key v) ([] @ [v]) a = [v] @ dedup_loop (Key v) [] a"
      using Cons.IH [of "Key v" "[v]"] by simp
    ultimately show ?thesis using False by simp
  qed
qed

lemma dedup_loop_Cons:
  "dedup_loop l [] (v # a) =
     (if Key v \<noteq> l then v # dedup_loop (Key v) [] a else dedup_loop l [] a)"
  using dedup_loop_results [of "Key v" "[v]" a] by simp

declare dedup_loop.simps(2) [simp del]

lemma dedup_loop_head: "dedup_loop l [] xs = y # ys \<Longrightarrow> Key y \<noteq> l"
proof (induction xs arbitrary: l)
  case Nil
  then show ?case by simp
next
  case (Cons v a)
  then show ?case
    by (cases "Key v = l") (auto simp: dedup_loop_Cons)
qed

lemma dedup_loop_distinct_adj: "distinct_adj (map Key (dedup_loop l [] xs))"
proof (induction xs arbitrary: l)
  case Nil
  show ?case by simp
next
  case (Cons v a)
  show ?case
  proof (cases "Key v = l")
    case True
    then show ?thesis using Cons.IH [of l] by (simp add: dedup_loop_Cons)
  next
    case False
    have "distinct_adj (Key v # map Key (dedup_loop (Key v) [] a))"
    proof (cases "dedup_loop (Key v) [] a")
      case Nil
      then show ?thesis by simp
    next
      case (Cons y ys)
      then have "Key y \<noteq> Key v" by (rule dedup_loop_head)
      moreover have "distinct_adj (map Key (y # ys))"
        using Cons.IH [of "Key v"] Cons by simp
      ultimately show ?thesis using Cons by (simp add: distinct_adj_Cons)
    qed
    then show ?thesis using False by (simp add: dedup_loop_Cons)
  qed
qed

lemma dedup_loop_subseq: "subseq (dedup_loop l [] xs) xs"
  by (induction xs arbitrary: l) (auto simp: dedup_loop_Cons)

lemma dedup_loop_fixed:
  "distinct_adj (map Key xs) \<Longrightarrow> (xs \<noteq> [] \<Longrightarrow> Key (hd xs) \<noteq> l) \<Longrightarrow> dedup_loop l [] xs = xs"
proof (induction xs arbitrary: l)
  case Nil
  show ?case by simp
next
  case (Cons v a)
  from Cons.prems have 1: "Key v \<noteq> l" by simp
  from Cons.prems have 2: "distinct_adj (map Key a)"
    by (cases a) (simp_all add: distinct_adj_Cons)
  from Cons.prems have 3: "a \<noteq> [] \<Longrightarrow> Key (hd a) \<noteq> Key v"
    by (cases a) (auto simp: distinct_adj_Cons)
  have "dedup_loop (Key v) [] a = a" using 2 3 by (rule Cons.IH)
  then show ?case using 1 by (simp add: dedup_loop_Cons)
qed

lemma dedup_loop_snoc:
  "dedup_loop l [] (xs @ [v]) =
     (if Key v \<noteq> (if dedup_loop l [] xs = [] then l else Key (last (dedup_loop l [] xs)))
      then dedup_loop l [] xs @ [v] else dedup_loop l [] xs)"
proof (induction xs arbitrary: l)
  case Nil
  show ?case by (simp add: dedup_loop_Cons)
next
  case (Cons x xs)
  show ?case
  proof (cases "Key x = l")
    case True
    then show ?thesis using Cons.IH [of l] by (simp add: dedup_loop_Cons)
  next
    case False
    then show ?thesis using Cons.IH [of "Key x"] by (simp add: dedup_loop_Cons)
  qed
qed

lemma dedup_fixed: "distinct_adj (map Key xs) \<Longrightarrow> dedup xs = xs"
  unfolding dedup_def by (rule dedup_loop_fixed) (simp_all add: Key_not_empty)

lemma dedup_distinct_adj: "distinct_adj (map Key (dedup xs))"
  unfolding dedup_def by (rule dedup_loop_distinct_adj)

lemma dedup_subseq: "subseq (dedup xs) xs"
  unfolding dedup_def by (rule dedup_loop_subseq)

text \<open>
  C9. \<open>dedup\<close> is idempotent, and its output is a subsequence of its input: it only drops
  elements and keeps the others in the order of the input.
\<close>

theorem dedup_idempotent_subseq:
  "dedup (dedup xs) = dedup xs \<and> subseq (dedup xs) xs"
  using dedup_fixed [OF dedup_distinct_adj [of xs]] dedup_subseq [of xs] by simp

end
